theory Spec2Isabelle
  imports Complex_Main
begin

section \<open>gusteau, chapter 1: the three engines and their contexts\<close>

text \<open>
  The program of \<^verbatim>\<open>chapter1.cpp\<close> is embedded by explicit state passing. What the code
  does to the outside (GLFW, GLEW, OpenGL, Dear ImGui, the standard streams) is a list of
  library calls in the order the code makes them; what the outside answers is read from an
  environment. Objects made by \<^verbatim>\<open>new\<close> and \<^verbatim>\<open>make_unique\<close> live in a heap and are
  named by their address; a pointer is an address or null (\<open>None\<close>).
\<close>

subsection \<open>Handles, pointers and library calls\<close>

type_synonym addr = nat

text \<open>
  A \<^verbatim>\<open>GLFWwindow*\<close> or \<^verbatim>\<open>ImGuiContext*\<close> is the library's own handle, or null.
\<close>

type_synonym GLFWwindow = nat
type_synonym ImGuiContext = nat

datatype glfw_hint =
    GLFW_CONTEXT_VERSION_MAJOR
  | GLFW_CONTEXT_VERSION_MINOR
  | GLFW_OPENGL_PROFILE
  | GLFW_OPENGL_FORWARD_COMPAT
  | GLFW_VISIBLE

text \<open>The values of the headers' constants are not in the source; they stay symbolic.\<close>

datatype hint_value =
    Literal int
  | GLFW_OPENGL_CORE_PROFILE
  | GL_TRUE
  | GLFW_TRUE
  | GLFW_FALSE

datatype gl_name = GL_RENDERER | GL_VERSION

datatype gl_buffer_bit = GL_COLOR_BUFFER_BIT | GL_DEPTH_BUFFER_BIT

datatype imgui_window_flag =
    ImGuiWindowFlags_NoTitleBar
  | ImGuiWindowFlags_NoResize
  | ImGuiWindowFlags_NoMove
  | ImGuiWindowFlags_NoCollapse
  | ImGuiWindowFlags_NoBringToFrontOnFocus
  | ImGuiWindowFlags_NoFocusOnAppearing
  | ImGuiWindowFlags_NoScrollbar
  | ImGuiWindowFlags_NoScrollWithMouse

text \<open>
  One constructor for each library call or stream output of the source, with the
  arguments the code passes. A \<^verbatim>\<open>float\<close> argument is recorded as the rational number that
  the \<^verbatim>\<open>float\<close> is. The sizes that \<open>set_io_DisplaySize\<close> and \<open>ImGui_SetNextWindowSize\<close>
  record are the integers that the code hands to \<^verbatim>\<open>static_cast<float>\<close>, before the
  conversion. \<open>std_cout label s\<close> is one line on \<^verbatim>\<open>std::cout\<close>: a literal and a string that
  is not null.
  \<open>glClearColor_ImColor r g b a\<close> is \<^verbatim>\<open>glClearColor\<close> on the four components of
  \<^verbatim>\<open>ImColor(r, g, b, a)\<close>, whatever the library makes of them;
  \<open>ImGui_copy_settings to from\<close> is the block of two \<^verbatim>\<open>memcpy\<close> and three assignments that
  \<^verbatim>\<open>ActivateContext\<close> makes from the previous ImGui context into its own;
  \<open>set_io_DisplaySize\<close> is the assignment to \<^verbatim>\<open>io.DisplaySize\<close>; and
  \<open>ImGui_ImplOpenGL3_RenderDrawData\<close> is that call on \<^verbatim>\<open>ImGui::GetDrawData()\<close>.
\<close>

datatype libcall =
    glfwSetErrorCallback
  | glfwInit
  | glfwWindowHint glfw_hint hint_value
  | glfwCreateWindow int int string "GLFWwindow option" "GLFWwindow option"
  | glfwMakeContextCurrent "GLFWwindow option"
  | glfwSwapInterval int
  | glfwWaitEventsTimeout rat
  | glfwGetFramebufferSize "GLFWwindow option"
  | glfwSwapBuffers "GLFWwindow option"
  | set_glewExperimental hint_value
  | glewInit
  | glGetString gl_name
  | glViewport int int int int
  | glClearColor_ImColor int int int int
  | glClear "gl_buffer_bit list"
  | std_cerr string
  | std_cout string string
  | IMGUI_CHECKVERSION
  | ImGui_CreateContext
  | ImGui_GetIO
  | ImGui_StyleColorsDark
  | ImGui_ImplGlfw_InitForOpenGL "GLFWwindow option" bool
  | ImGui_ImplOpenGL3_Init string
  | ImGui_GetCurrentContext
  | ImGui_copy_settings ImGuiContext ImGuiContext
  | ImGui_SetCurrentContext ImGuiContext
  | set_io_DisplaySize int int
  | ImGui_ImplOpenGL3_NewFrame
  | ImGui_ImplGlfw_NewFrame
  | ImGui_NewFrame
  | ImGui_SetNextWindowPos int int
  | ImGui_SetNextWindowSize int int
  | ImGui_Begin string "imgui_window_flag list"
  | ImGui_SetWindowFontScale rat
  | ImGui_Text string
  | ImGui_Button string
  | ImGui_End
  | ImGui_Render
  | ImGui_ImplOpenGL3_RenderDrawData

text \<open>
  What the libraries answer. Every answer may depend on the moment of the call, which is
  the number of library calls made before it. \<open>APPLE\<close> is the \<^verbatim>\<open>__APPLE__\<close> macro of the
  build. \<^verbatim>\<open>glfwCreateWindow\<close>, \<^verbatim>\<open>glGetString\<close> and \<^verbatim>\<open>ImGui::GetCurrentContext\<close> may answer
  null; \<^verbatim>\<open>ImGui::CreateContext\<close> answers a new context, never null.
\<close>

record Environment =
  APPLE :: bool
  glfwInit_result :: "nat \<Rightarrow> bool"
  glfwCreateWindow_result :: "nat \<Rightarrow> GLFWwindow option"
  GLEW_VERSION_4_1 :: "nat \<Rightarrow> bool"
  glProgramParameteri_loaded :: "nat \<Rightarrow> bool"
  glGetString_result :: "nat \<Rightarrow> string option"
  glfwGetFramebufferSize_result :: "nat \<Rightarrow> int \<times> int"
  ImGui_CreateContext_result :: "nat \<Rightarrow> ImGuiContext"
  ImGui_GetCurrentContext_result :: "nat \<Rightarrow> ImGuiContext option"
  ImGui_Button_result :: "nat \<Rightarrow> bool"

text \<open>
  The value of the expression \<^verbatim>\<open>1.f / 24.f\<close>. Both operands are exact in single precision
  and the quotient \<open>1 / 24\<close> lies between \<open>2 ^ -5\<close> and \<open>2 ^ -4\<close>, where the 24-bit
  significand leaves steps of \<open>2 ^ -28\<close>; the division rounds to the nearest of them,
  \<open>11184811 / 2 ^ 28\<close>. The conversion to the \<^verbatim>\<open>double\<close> that \<^verbatim>\<open>glfwWaitEventsTimeout\<close> takes
  is exact.
\<close>

definition float_1_div_24 :: rat where
  "float_1_div_24 = 11184811 / 268435456"

subsection \<open>The classes\<close>

text \<open>
  A field \<^verbatim>\<open>m_\<close> or \<^verbatim>\<open>_window\<close> carries the name of its class, since record fields share
  one name space.
\<close>

record StateContext =
  StateContext_m :: "addr option"

record RenderContext =
  RenderContext_m :: "addr option"

record GraphicsContext =
  GraphicsContext_m :: "addr option"

record GLFWGraphicsContext = GraphicsContext +
  GLFWGraphicsContext_window :: "GLFWwindow option"

record UIContext =
  UIContext_m :: "addr option"

text \<open>
  \<^verbatim>\<open>UIContext::Detail\<close>. Its \<^verbatim>\<open>_run\<close> is a \<^verbatim>\<open>std::function\<close>: empty, or the one closure
  the program ever stores there, \<^verbatim>\<open>[this](ApplicationContextBase& ac) { Run(ac); }\<close>.
\<close>

datatype closure = Lambda_this_Run

record UIContext_Detail =
  Detail_window :: "GLFWwindow option"
  Detail_context :: ImGuiContext
  Detail_window_name :: string
  Detail_run :: "closure option"

text \<open>
  \<open>join_now\<close> is \<^verbatim>\<open>ApplicationContextBase::join_now\<close>, the member that code holding an
  \<^verbatim>\<open>ApplicationContextBase\<close> reference or pointer reads. The derived class declares a
  member of the same name, which hides it for code holding an \<^verbatim>\<open>ApplicationContext\<close>:
  that second member is \<open>ApplicationContext_join_now\<close>. A \<^verbatim>\<open>shared_ptr<UIContext>\<close> is
  the object it points to, or empty; the reference \<open>root_graphics_context\<close> is an address.
  The application context itself is handed from function to function: \<^verbatim>\<open>main\<close> makes one
  and gives the same one to the three engines.
\<close>

record ApplicationContextBase =
  join_now :: bool
  ui :: "UIContext option"

record ApplicationContext = ApplicationContextBase +
  root_graphics_context :: addr
  state :: StateContext
  render :: RenderContext
  ApplicationContext_join_now :: bool

subsection \<open>The heap and the world\<close>

datatype object =
    Raw_storage
  | StateContext_Detail
  | RenderContext_Detail
  | GraphicsContext_Detail
  | UIContext_Detail_object UIContext_Detail
  | GraphicsContext_object GraphicsContext
  | GLFWGraphicsContext_object GLFWGraphicsContext

text \<open>
  The heap is the list of all cells ever allocated; a cell's address is its index and a
  deleted cell is \<open>None\<close>. Allocation never fails (no \<^verbatim>\<open>bad_alloc\<close>). \<open>Raw_storage\<close> is
  a cell between its allocation and the end of the constructor that fills it.
\<close>

record World =
  heap :: "object option list"
  trace :: "libcall list"

definition new :: "object \<Rightarrow> World \<Rightarrow> addr \<times> World" where
  "new obj w = (length (heap w), w\<lparr>heap := heap w @ [Some obj]\<rparr>)"

definition delete :: "addr option \<Rightarrow> World \<Rightarrow> World" where
  "delete p w =
     (case p of
        None \<Rightarrow> w
      | Some a \<Rightarrow> if a < length (heap w) then w\<lparr>heap := (heap w)[a := None]\<rparr> else w)"

definition deref :: "World \<Rightarrow> addr option \<Rightarrow> object option" where
  "deref w p =
     (case p of
        None \<Rightarrow> None
      | Some a \<Rightarrow> if a < length (heap w) then heap w ! a else None)"

definition store :: "addr \<Rightarrow> object \<Rightarrow> World \<Rightarrow> World" where
  "store a obj w = (if a < length (heap w) then w\<lparr>heap := (heap w)[a := Some obj]\<rparr> else w)"

definition call :: "libcall \<Rightarrow> World \<Rightarrow> World" where
  "call c w = w\<lparr>trace := trace w @ [c]\<rparr>"

definition now :: "World \<Rightarrow> nat" where
  "now w = length (trace w)"

text \<open>
  What ends a function other than a return: a C++ exception, or undefined behaviour
  (a null or dangling pointer dereferenced).
\<close>

datatype failure = runtime_error string | undefined_behaviour

subsection \<open>Constructors and destructors of the context objects\<close>

text \<open>
  \<^verbatim>\<open>StateContext::StateContext() : m_(new Detail()) {}\<close>; \<^verbatim>\<open>RenderContext\<close> and
  \<^verbatim>\<open>GraphicsContext\<close> are written the same way. The member initialiser of the constructor
  replaces the default \<^verbatim>\<open>m_{}\<close> of the class. Every destructor is \<^verbatim>\<open>delete m_\<close>; the one
  of \<^verbatim>\<open>GraphicsContext\<close> is needed below.
\<close>

definition StateContext_ctor :: "World \<Rightarrow> StateContext \<times> World" where
  "StateContext_ctor w =
     (let (a, w) = new StateContext_Detail w in (\<lparr>StateContext_m = Some a\<rparr>, w))"

definition RenderContext_ctor :: "World \<Rightarrow> RenderContext \<times> World" where
  "RenderContext_ctor w =
     (let (a, w) = new RenderContext_Detail w in (\<lparr>RenderContext_m = Some a\<rparr>, w))"

definition GraphicsContext_ctor :: "World \<Rightarrow> GraphicsContext \<times> World" where
  "GraphicsContext_ctor w =
     (let (a, w) = new GraphicsContext_Detail w in (\<lparr>GraphicsContext_m = Some a\<rparr>, w))"

definition GraphicsContext_dtor :: "'a GraphicsContext_scheme \<Rightarrow> World \<Rightarrow> World" where
  "GraphicsContext_dtor this w = delete (GraphicsContext_m this) w"

subsection \<open>The root graphics context\<close>

definition setGlfwFlags :: "Environment \<Rightarrow> World \<Rightarrow> World" where
  "setGlfwFlags env w =
     (let w = call (glfwWindowHint GLFW_CONTEXT_VERSION_MAJOR (Literal 4)) w;
          w = call (glfwWindowHint GLFW_CONTEXT_VERSION_MINOR (Literal 3)) w
      in if APPLE env
         then call (glfwWindowHint GLFW_OPENGL_FORWARD_COMPAT GL_TRUE)
                (call (glfwWindowHint GLFW_OPENGL_PROFILE GLFW_OPENGL_CORE_PROFILE) w)
         else w)"

text \<open>
  \<^verbatim>\<open>GLFWGraphicsContext::GLFWGraphicsContext()\<close>. The base class constructor runs first.
  When the body throws, the base sub-object is destroyed again (\<^verbatim>\<open>delete m_\<close>) before the
  exception leaves. The result of \<^verbatim>\<open>glfwCreateWindow\<close> is not tested. Neither are the two
  results of \<^verbatim>\<open>glGetString\<close>, and \<^verbatim>\<open>operator<<\<close> on a null \<^verbatim>\<open>const GLubyte*\<close> is undefined
  behaviour.
\<close>

definition GLFWGraphicsContext_ctor ::
  "Environment \<Rightarrow> World \<Rightarrow> (failure + GLFWGraphicsContext) \<times> World" where
  "GLFWGraphicsContext_ctor env w =
     (let (base, w) = GraphicsContext_ctor w;
          w = call glfwSetErrorCallback w;
          ok = glfwInit_result env (now w);
          w = call glfwInit w
      in if \<not> ok
         then (Inl (runtime_error ''Could not initialize glfw''), GraphicsContext_dtor base w)
         else
           let w = setGlfwFlags env w;
               w = call (glfwWindowHint GLFW_VISIBLE GLFW_FALSE) w;
               window = glfwCreateWindow_result env (now w);
               w = call (glfwCreateWindow 16 16 ''Root graphics context'' None None) w;
               w = call (glfwMakeContextCurrent window) w;
               w = call (glfwSwapInterval 1) w;
               w = call (set_glewExperimental GL_TRUE) w;
               w = call glewInit w;
               w = (if \<not> GLEW_VERSION_4_1 env (now w)
                    then call (std_cerr ''glew didn't init properly'') w else w);
               w = (if \<not> glProgramParameteri_loaded env (now w)
                    then call (std_cerr ''glew didn't init properly'') w else w);
               renderer = glGetString_result env (now w);
               w = call (glGetString GL_RENDERER) w;
               version = glGetString_result env (now w);
               w = call (glGetString GL_VERSION) w
           in case renderer of
                None \<Rightarrow> (Inl undefined_behaviour, w)
              | Some renderer \<Rightarrow>
                  let w = call (std_cout ''OpenGL Renderer: '' renderer) w
                  in case version of
                       None \<Rightarrow> (Inl undefined_behaviour, w)
                     | Some version \<Rightarrow>
                         let w = call (std_cout ''OpenGL Version: '' version) w;
                             this = \<lparr>GraphicsContext_m = GraphicsContext_m base,
                                     GLFWGraphicsContext_window = window\<rparr>;
                             w = call (glfwMakeContextCurrent None) w
                         in (Inr this, w))"

text \<open>
  \<^verbatim>\<open>CreateRootGraphicsContext\<close> is \<^verbatim>\<open>std::make_unique<GLFWGraphicsContext>()\<close>: storage,
  then the constructor; an exception of the constructor frees the storage and goes on to
  the caller, undefined behaviour in the constructor is undefined behaviour of the
  factory. The \<^verbatim>\<open>unique_ptr\<close> returned is the address of the object.
\<close>

definition CreateRootGraphicsContext ::
  "Environment \<Rightarrow> World \<Rightarrow> (failure + addr option) \<times> World" where
  "CreateRootGraphicsContext env w =
     (let (a, w) = new Raw_storage w
      in case GLFWGraphicsContext_ctor env w of
           (Inl (runtime_error what), w) \<Rightarrow> (Inl (runtime_error what), delete (Some a) w)
         | (Inl undefined_behaviour, w) \<Rightarrow> (Inl undefined_behaviour, w)
         | (Inr obj, w) \<Rightarrow> (Inr (Some a), store a (GLFWGraphicsContext_object obj) w))"

subsection \<open>The UI context\<close>

text \<open>
  \<^verbatim>\<open>UIContext::Detail::Detail\<close>. The \<^verbatim>\<open>GraphicsContext&\<close> is the address of an object; the
  \<^verbatim>\<open>dynamic_cast\<close> gives null unless a \<^verbatim>\<open>GLFWGraphicsContext\<close> lives there, and the code
  dereferences the result without a test.
\<close>

definition Detail_ctor ::
  "Environment \<Rightarrow> addr \<Rightarrow> closure option \<Rightarrow> string \<Rightarrow> int \<Rightarrow> int \<Rightarrow> World
     \<Rightarrow> (failure + UIContext_Detail) \<times> World" where
  "Detail_ctor env context run window_name width height w =
     (let w = setGlfwFlags env w;
          w = call (glfwWindowHint GLFW_VISIBLE GLFW_TRUE) w
      in case deref w (Some context) of
           Some (GLFWGraphicsContext_object gc) \<Rightarrow>
             let window = glfwCreateWindow_result env (now w);
                 w = call (glfwCreateWindow width height window_name None
                             (GLFWGraphicsContext_window gc)) w;
                 w = call (glfwMakeContextCurrent window) w;
                 w = call IMGUI_CHECKVERSION w;
                 context' = ImGui_CreateContext_result env (now w);
                 w = call ImGui_CreateContext w;
                 w = call ImGui_GetIO w;
                 w = call ImGui_StyleColorsDark w;
                 w = call (ImGui_ImplGlfw_InitForOpenGL window True) w;
                 w = call (ImGui_ImplOpenGL3_Init ''#version 150'') w;
                 w = call (glfwMakeContextCurrent None) w
             in (Inr \<lparr>Detail_window = window, Detail_context = context',
                      Detail_window_name = window_name, Detail_run = run\<rparr>, w)
         | _ \<Rightarrow> (Inl undefined_behaviour, w))"

text \<open>
  \<^verbatim>\<open>UIContext::UIContext\<close>: \<^verbatim>\<open>m_(new Detail(context, [this](...) { Run(ac); }, ...))\<close>.
\<close>

definition UIContext_ctor ::
  "Environment \<Rightarrow> addr \<Rightarrow> string \<Rightarrow> int \<Rightarrow> int \<Rightarrow> World \<Rightarrow> (failure + UIContext) \<times> World" where
  "UIContext_ctor env context window_name width height w =
     (let (a, w) = new Raw_storage w
      in case Detail_ctor env context (Some Lambda_this_Run) window_name width height w of
           (Inl exc, w) \<Rightarrow> (Inl exc, delete (Some a) w)
         | (Inr d, w) \<Rightarrow> (Inr \<lparr>UIContext_m = Some a\<rparr>, store a (UIContext_Detail_object d) w))"

text \<open>
  \<^verbatim>\<open>GusteauChapter1UI\<close> adds nothing to the \<^verbatim>\<open>UIContext\<close> it constructs, and
  \<^verbatim>\<open>CreateUIContext\<close> makes one with the name and size written there. The smart pointer
  returned is the object, never empty.
\<close>

definition GusteauChapter1UI_ctor ::
  "Environment \<Rightarrow> addr \<Rightarrow> string \<Rightarrow> int \<Rightarrow> int \<Rightarrow> World \<Rightarrow> (failure + UIContext) \<times> World" where
  "GusteauChapter1UI_ctor env gc window_name width height w =
     UIContext_ctor env gc window_name width height w"

definition CreateUIContext ::
  "Environment \<Rightarrow> addr \<Rightarrow> World \<Rightarrow> (failure + UIContext option) \<times> World" where
  "CreateUIContext env gc w =
     (case GusteauChapter1UI_ctor env gc ''gusteau'' 1024 1024 w of
        (Inl exc, w) \<Rightarrow> (Inl exc, w)
      | (Inr u, w) \<Rightarrow> (Inr (Some u), w))"

subsection \<open>The application context\<close>

text \<open>
  \<^verbatim>\<open>ApplicationContext::ApplicationContext(gc, ui_)\<close>: the base class sets its
  \<^verbatim>\<open>join_now = false\<close> and an empty \<^verbatim>\<open>ui\<close>; the members follow in the order of their
  declaration, the derived \<^verbatim>\<open>join_now{}\<close> last; the body assigns \<^verbatim>\<open>ui = ui_\<close>.
\<close>

definition ApplicationContext_ctor ::
  "addr \<Rightarrow> UIContext option \<Rightarrow> World \<Rightarrow> ApplicationContext \<times> World" where
  "ApplicationContext_ctor gc ui' w =
     (let (state', w) = StateContext_ctor w;
          (render', w) = RenderContext_ctor w;
          this = \<lparr>join_now = False, ui = None, root_graphics_context = gc,
                  state = state', render = render', ApplicationContext_join_now = False\<rparr>
      in (this\<lparr>ui := ui'\<rparr>, w))"

definition CreateApplicationContext ::
  "addr \<Rightarrow> UIContext option \<Rightarrow> World \<Rightarrow> ApplicationContext \<times> World" where
  "CreateApplicationContext gc ui' w = ApplicationContext_ctor gc ui' w"

text \<open>\<^verbatim>\<open>virtual void Update() override {}\<close>\<close>

definition Update :: "ApplicationContext \<Rightarrow> World \<Rightarrow> ApplicationContext \<times> World" where
  "Update this w = (this, w)"

subsection \<open>Rendering a frame\<close>

text \<open>
  \<^verbatim>\<open>GusteauChapter1UI::Run(ApplicationContext& ac)\<close>. Its parameter has the derived type, so
  \<^verbatim>\<open>ac.join_now\<close> is the member declared in \<^verbatim>\<open>ApplicationContext\<close>. The closure stored in
  \<^verbatim>\<open>_run\<close> calls the virtual \<^verbatim>\<open>Run\<close> with the context that \<^verbatim>\<open>Render\<close> was given; the call
  is taken to arrive here with that same object.
\<close>

definition GusteauChapter1UI_Run ::
  "Environment \<Rightarrow> ApplicationContext \<Rightarrow> World \<Rightarrow> ApplicationContext \<times> World" where
  "GusteauChapter1UI_Run env ac w =
     (let w = call (ImGui_Text ''Hello world'') w;
          pressed = ImGui_Button_result env (now w);
          w = call (ImGui_Button ''Quit'') w
      in if pressed then (ac\<lparr>ApplicationContext_join_now := True\<rparr>, w) else (ac, w))"

definition ActivateContext :: "Environment \<Rightarrow> UIContext_Detail \<Rightarrow> World \<Rightarrow> World" where
  "ActivateContext env this w =
     (let prevContext = ImGui_GetCurrentContext_result env (now w);
          w = call ImGui_GetCurrentContext w
      in if prevContext = Some (Detail_context this) then w
         else
           let w = (case prevContext of
                      None \<Rightarrow> w
                    | Some prev \<Rightarrow> call (ImGui_copy_settings (Detail_context this) prev) w)
           in call (ImGui_SetCurrentContext (Detail_context this)) w)"

text \<open>The \<^verbatim>\<open>%td\<close> of \<^verbatim>\<open>sprintf\<close> on an address, which is never negative here.\<close>

fun decimal :: "nat \<Rightarrow> string" where
  "decimal n =
     (if n < 10 then [''0123456789'' ! n]
      else decimal (n div 10) @ [''0123456789'' ! (n mod 10)])"

declare decimal.simps [simp del]

text \<open>
  \<^verbatim>\<open>UIContext::Detail::Render(ApplicationContextBase& context)\<close>; \<open>a\<close> is the address of the
  \<^verbatim>\<open>Detail\<close> (its \<^verbatim>\<open>this\<close>). The flag tested is the one of the base class.
\<close>

definition Detail_Render ::
  "Environment \<Rightarrow> addr \<Rightarrow> UIContext_Detail \<Rightarrow> ApplicationContext \<Rightarrow> World
     \<Rightarrow> ApplicationContext \<times> World" where
  "Detail_Render env a this context w0 =
     (if Detail_window this = None \<or> join_now context then (context, w0)
      else
        let w = call (glfwMakeContextCurrent (Detail_window this)) w0;
            w = ActivateContext env this w;
            (width, height) = glfwGetFramebufferSize_result env (now w);
            w = call (glfwGetFramebufferSize (Detail_window this)) w;
            w = call ImGui_GetIO w;
            w = call (set_io_DisplaySize width height) w;
            w = call ImGui_ImplOpenGL3_NewFrame w;
            w = call ImGui_ImplGlfw_NewFrame w;
            w = call ImGui_NewFrame w;
            w = call (ImGui_SetNextWindowPos 0 0) w;
            w = call (ImGui_SetNextWindowSize width height) w;
            flags = [ImGuiWindowFlags_NoTitleBar, ImGuiWindowFlags_NoResize,
                     ImGuiWindowFlags_NoMove, ImGuiWindowFlags_NoCollapse,
                     ImGuiWindowFlags_NoBringToFrontOnFocus,
                     ImGuiWindowFlags_NoFocusOnAppearing,
                     ImGuiWindowFlags_NoScrollbar, ImGuiWindowFlags_NoScrollWithMouse];
            w = call (ImGui_Begin (''###GraphicsWindow_'' @ decimal a) flags) w;
            w = call (ImGui_SetWindowFontScale 1) w;
            w = call (glViewport 0 0 width height) w;
            w = call (glClearColor_ImColor 1 0 0 1) w;
            w = call (glClear [GL_COLOR_BUFFER_BIT, GL_DEPTH_BUFFER_BIT]) w;
            (context, w) = (case Detail_run this of
                              None \<Rightarrow> (context, w)
                            | Some Lambda_this_Run \<Rightarrow> GusteauChapter1UI_Run env context w);
            w = call ImGui_End w;
            w = call ImGui_Render w;
            w = call ImGui_ImplOpenGL3_RenderDrawData w;
            w = call (glfwSwapBuffers (Detail_window this)) w
        in (context, w))"

text \<open>\<^verbatim>\<open>void UIContext::Render(ApplicationContextBase& context) { m_->Render(context); }\<close>\<close>

definition UIContext_Render ::
  "Environment \<Rightarrow> UIContext \<Rightarrow> ApplicationContext \<Rightarrow> World
     \<Rightarrow> failure + ApplicationContext \<times> World" where
  "UIContext_Render env this context w =
     (case UIContext_m this of
        None \<Rightarrow> Inl undefined_behaviour
      | Some a \<Rightarrow>
          (case deref w (Some a) of
             Some (UIContext_Detail_object d) \<Rightarrow> Inr (Detail_Render env a d context w)
           | _ \<Rightarrow> Inl undefined_behaviour))"

subsection \<open>The engines\<close>

text \<open>
  \<^verbatim>\<open>void StateEngine(std::shared_ptr<ApplicationContextBase>) {}\<close> and
  \<^verbatim>\<open>void RenderEngine(std::shared_ptr<ApplicationContextBase>) {}\<close>
\<close>

definition StateEngine :: "ApplicationContext \<Rightarrow> World \<Rightarrow> ApplicationContext \<times> World" where
  "StateEngine context w = (context, w)"

definition RenderEngine :: "ApplicationContext \<Rightarrow> World \<Rightarrow> ApplicationContext \<times> World" where
  "RenderEngine context w = (context, w)"

text \<open>
  The body of the loop of \<^verbatim>\<open>UIEngine\<close>, and the loop. \<^verbatim>\<open>context->join_now\<close> goes through a
  pointer to \<^verbatim>\<open>ApplicationContextBase\<close>, so it reads the member of the base class. The loop
  has no bound: \<open>None\<close> is a run that never returns.
\<close>

definition UIEngine_body ::
  "Environment \<Rightarrow> ApplicationContext \<Rightarrow> World \<Rightarrow> failure + ApplicationContext \<times> World" where
  "UIEngine_body env context w =
     (let w = call (glfwWaitEventsTimeout float_1_div_24) w
      in case ui context of
           None \<Rightarrow> Inl undefined_behaviour
         | Some u \<Rightarrow>
             (case UIContext_Render env u context w of
                Inl exc \<Rightarrow> Inl exc
              | Inr (context, w) \<Rightarrow> Inr (Update context w)))"

partial_function (option) UIEngine ::
  "Environment \<Rightarrow> ApplicationContext \<Rightarrow> World \<Rightarrow> (failure + ApplicationContext \<times> World) option"
  where
  "UIEngine env context w =
     (if join_now context then Some (Inr (context, w))
      else
        case UIEngine_body env context w of
          Inl exc \<Rightarrow> Some (Inl exc)
        | Inr (context, w) \<Rightarrow> UIEngine env context w)"

subsection \<open>The program as a whole\<close>

text \<open>
  The first three statements of \<^verbatim>\<open>main\<close>: the root graphics context, the UI context made
  from it, and the application context made from both. \<^verbatim>\<open>*root_graphics_context.get()\<close>
  dereferences the pointer that the factory returned.
\<close>

definition main_contexts ::
  "Environment \<Rightarrow> World \<Rightarrow> failure + ApplicationContext \<times> World" where
  "main_contexts env w =
     (case CreateRootGraphicsContext env w of
        (Inl exc, w) \<Rightarrow> Inl exc
      | (Inr None, w) \<Rightarrow> Inl undefined_behaviour
      | (Inr (Some gc), w) \<Rightarrow>
          (case CreateUIContext env gc w of
             (Inl exc, w) \<Rightarrow> Inl exc
           | (Inr ui_context, w) \<Rightarrow> Inr (CreateApplicationContext gc ui_context w)))"

text \<open>
  Everything the program can do to an application context once it exists: the two
  engines that \<^verbatim>\<open>main\<close> starts on threads of their own, and on the main thread
  \<^verbatim>\<open>UIEngine\<close>, one turn of its loop, and the functions such a turn calls. A schedule is
  any sequence of these, so it covers every interleaving of the three threads; a
  schedule stops at the first failure and has no result when \<^verbatim>\<open>UIEngine\<close> does not return.
\<close>

datatype operation =
    Op_StateEngine
  | Op_RenderEngine
  | Op_UIEngine
  | Op_UIEngine_body
  | Op_glfwWaitEventsTimeout
  | Op_UIContext_Render
  | Op_GusteauChapter1UI_Run
  | Op_Update

definition perform ::
  "Environment \<Rightarrow> operation \<Rightarrow> ApplicationContext \<Rightarrow> World
     \<Rightarrow> (failure + ApplicationContext \<times> World) option" where
  "perform env op context w =
     (case op of
        Op_StateEngine \<Rightarrow> Some (Inr (StateEngine context w))
      | Op_RenderEngine \<Rightarrow> Some (Inr (RenderEngine context w))
      | Op_UIEngine \<Rightarrow> UIEngine env context w
      | Op_UIEngine_body \<Rightarrow> Some (UIEngine_body env context w)
      | Op_glfwWaitEventsTimeout \<Rightarrow> Some (Inr (context, call (glfwWaitEventsTimeout float_1_div_24) w))
      | Op_UIContext_Render \<Rightarrow>
          (case ui context of
             None \<Rightarrow> Some (Inl undefined_behaviour)
           | Some u \<Rightarrow> Some (UIContext_Render env u context w))
      | Op_GusteauChapter1UI_Run \<Rightarrow> Some (Inr (GusteauChapter1UI_Run env context w))
      | Op_Update \<Rightarrow> Some (Inr (Update context w)))"

fun schedule ::
  "Environment \<Rightarrow> operation list \<Rightarrow> ApplicationContext \<Rightarrow> World
     \<Rightarrow> (failure + ApplicationContext \<times> World) option" where
  "schedule env [] context w = Some (Inr (context, w))"
| "schedule env (op # ops) context w =
     (case perform env op context w of
        None \<Rightarrow> None
      | Some (Inl exc) \<Rightarrow> Some (Inl exc)
      | Some (Inr (context, w)) \<Rightarrow> schedule env ops context w)"

text \<open>
  The \<^verbatim>\<open>ui\<close> of a context can be used: it is not empty and its \<^verbatim>\<open>m_\<close> points to a live
  \<^verbatim>\<open>UIContext::Detail\<close>, as after \<^verbatim>\<open>CreateUIContext\<close> and before any destructor.
\<close>

definition ui_valid :: "ApplicationContext \<Rightarrow> World \<Rightarrow> bool" where
  "ui_valid context w =
     (case ui context of
        None \<Rightarrow> False
      | Some u \<Rightarrow>
          (case deref w (UIContext_m u) of
             Some (UIContext_Detail_object d) \<Rightarrow> True
           | _ \<Rightarrow> False))"

text \<open>
  What an operation may do to the two flags: the one of the base class keeps its value,
  the one of the derived class stays true once true, and changes at all only if
  \<^verbatim>\<open>ImGui::Button\<close> can answer true.
\<close>

definition flags_kept :: "Environment \<Rightarrow> ApplicationContext \<Rightarrow> ApplicationContext \<Rightarrow> bool" where
  "flags_kept env ac ac' \<longleftrightarrow>
     join_now ac' = join_now ac \<and>
     (ApplicationContext_join_now ac \<longrightarrow> ApplicationContext_join_now ac') \<and>
     ((\<forall>t. \<not> ImGui_Button_result env t) \<longrightarrow>
        ApplicationContext_join_now ac' = ApplicationContext_join_now ac)"

subsection \<open>Concrete runs\<close>

text \<open>
  A world with nothing allocated and nothing called yet; an environment in which every
  library call succeeds and the user holds the Quit button down in every frame; the same
  with GLFW failing to initialise; and one in which GLFW initialises but creates no
  window, so that no OpenGL context is ever current: GLEW loads nothing and
  \<^verbatim>\<open>glGetString\<close> answers null.
\<close>

definition empty_world :: World where
  "empty_world = \<lparr>heap = [], trace = []\<rparr>"

definition quit_pressed :: Environment where
  "quit_pressed =
     \<lparr>APPLE = False,
      glfwInit_result = (\<lambda>t. True),
      glfwCreateWindow_result = (\<lambda>t. Some t),
      GLEW_VERSION_4_1 = (\<lambda>t. True),
      glProgramParameteri_loaded = (\<lambda>t. True),
      glGetString_result = (\<lambda>t. Some ''4.3''),
      glfwGetFramebufferSize_result = (\<lambda>t. (1024, 1024)),
      ImGui_CreateContext_result = (\<lambda>t. t),
      ImGui_GetCurrentContext_result = (\<lambda>t. None),
      ImGui_Button_result = (\<lambda>t. True)\<rparr>"

definition glfw_fails :: Environment where
  "glfw_fails = quit_pressed\<lparr>glfwInit_result := (\<lambda>t. False)\<rparr>"

definition no_window :: Environment where
  "no_window =
     quit_pressed
       \<lparr>glfwCreateWindow_result := (\<lambda>t. None),
        GLEW_VERSION_4_1 := (\<lambda>t. False),
        glProgramParameteri_loaded := (\<lambda>t. False),
        glGetString_result := (\<lambda>t. None)\<rparr>"

text \<open>A context as its constructor leaves it, and one whose base-class flag is set.\<close>

definition fresh_context :: ApplicationContext where
  "fresh_context = fst (CreateApplicationContext 0 None empty_world)"

definition joined_context :: ApplicationContext where
  "joined_context = fresh_context\<lparr>join_now := True\<rparr>"

text \<open>
  A world that holds one \<^verbatim>\<open>UIContext::Detail\<close> with a window, a context whose \<^verbatim>\<open>ui\<close> points
  to it, and the same pair with the window handle null.
\<close>

definition window_detail :: UIContext_Detail where
  "window_detail =
     \<lparr>Detail_window = Some 1, Detail_context = 2,
      Detail_window_name = ''gusteau'', Detail_run = Some Lambda_this_Run\<rparr>"

definition window_world :: World where
  "window_world = \<lparr>heap = [Some (UIContext_Detail_object window_detail)], trace = []\<rparr>"

definition window_context :: ApplicationContext where
  "window_context = fresh_context\<lparr>ui := Some \<lparr>UIContext_m = Some 0\<rparr>\<rparr>"

definition null_window_world :: World where
  "null_window_world =
     \<lparr>heap = [Some (UIContext_Detail_object (window_detail\<lparr>Detail_window := None\<rparr>))],
      trace = []\<rparr>"

definition never_pressed :: Environment where
  "never_pressed = quit_pressed\<lparr>ImGui_Button_result := (\<lambda>t. False)\<rparr>"

section \<open>Properties\<close>

subsection \<open>What a library call and a frame leave alone\<close>

lemma heap_call [simp]: "heap (call c w) = heap w"
  by (simp add: call_def)

lemma trace_call [simp]: "trace (call c w) = trace w @ [c]"
  by (simp add: call_def)

lemma now_call [simp]: "now (call c w) = Suc (now w)"
  by (simp add: now_def)

lemma deref_call [simp]: "deref (call c w) p = deref w p"
  by (simp add: deref_def split: option.split)

lemma heap_setGlfwFlags [simp]: "heap (setGlfwFlags env w) = heap w"
  by (simp add: setGlfwFlags_def Let_def)

lemma now_setGlfwFlags [simp]:
  "now (setGlfwFlags env w) = now w + (if APPLE env then 4 else 2)"
  by (simp add: setGlfwFlags_def Let_def)

lemma heap_ActivateContext [simp]: "heap (ActivateContext env d w) = heap w"
  by (simp add: ActivateContext_def Let_def split: option.split)

lemma Run_base_flag [simp]: "join_now (fst (GusteauChapter1UI_Run env ac w)) = join_now ac"
  by (simp add: GusteauChapter1UI_Run_def Let_def)

lemma Run_ui [simp]: "ui (fst (GusteauChapter1UI_Run env ac w)) = ui ac"
  by (simp add: GusteauChapter1UI_Run_def Let_def)

lemma Run_heap [simp]: "heap (snd (GusteauChapter1UI_Run env ac w)) = heap w"
  by (simp add: GusteauChapter1UI_Run_def Let_def)

lemma Run_derived_flag:
  "ApplicationContext_join_now ac \<Longrightarrow> ApplicationContext_join_now (fst (GusteauChapter1UI_Run env ac w))"
  by (simp add: GusteauChapter1UI_Run_def Let_def)

lemma Detail_Render_base_flag [simp]:
  "join_now (fst (Detail_Render env a d ac w)) = join_now ac"
  by (simp add: Detail_Render_def Let_def split_beta split: option.split closure.split)

lemma Detail_Render_ui [simp]:
  "ui (fst (Detail_Render env a d ac w)) = ui ac"
  by (simp add: Detail_Render_def Let_def split_beta split: option.split closure.split)

lemma Detail_Render_heap [simp]:
  "heap (snd (Detail_Render env a d ac w)) = heap w"
  by (simp add: Detail_Render_def Let_def split_beta split: option.split closure.split)

lemma Detail_Render_derived_flag:
  "ApplicationContext_join_now ac \<Longrightarrow> ApplicationContext_join_now (fst (Detail_Render env a d ac w))"
  by (simp add: Detail_Render_def Let_def split_beta Run_derived_flag split: option.split closure.split)


subsection \<open>One turn of the loop, and the loop\<close>

lemma deref_heap_cong: "heap w' = heap w \<Longrightarrow> deref w' p = deref w p"
  by (simp add: deref_def split: option.split)

lemma UIContext_Render_Inr:
  assumes "UIContext_Render env u ac w = Inr (ac', w')"
  shows "join_now ac' = join_now ac" and "ui ac' = ui ac" and "heap w' = heap w"
    and "ApplicationContext_join_now ac \<Longrightarrow> ApplicationContext_join_now ac'"
proof -
  from assms obtain a d where r: "Detail_Render env a d ac w = (ac', w')"
    by (auto simp: UIContext_Render_def split: option.splits object.splits)
  have f: "ac' = fst (Detail_Render env a d ac w)" and s: "w' = snd (Detail_Render env a d ac w)"
    using r by simp_all
  show "join_now ac' = join_now ac" by (simp add: f)
  show "ui ac' = ui ac" by (simp add: f)
  show "heap w' = heap w" by (simp add: s)
  show "ApplicationContext_join_now ac \<Longrightarrow> ApplicationContext_join_now ac'"
    by (simp add: f Detail_Render_derived_flag)
qed

lemma UIEngine_body_Inr:
  assumes "UIEngine_body env ac w = Inr (ac', w')"
  shows "join_now ac' = join_now ac" and "ui ac' = ui ac" and "heap w' = heap w"
    and "ApplicationContext_join_now ac \<Longrightarrow> ApplicationContext_join_now ac'"
proof -
  from assms obtain u where
    r: "UIContext_Render env u ac (call (glfwWaitEventsTimeout float_1_div_24) w) = Inr (ac', w')"
    by (auto simp: UIEngine_body_def Update_def Let_def split: option.splits sum.splits)
  show "join_now ac' = join_now ac" using UIContext_Render_Inr(1) [OF r] .
  show "ui ac' = ui ac" using UIContext_Render_Inr(2) [OF r] .
  show "heap w' = heap w" using UIContext_Render_Inr(3) [OF r] by simp
  show "ApplicationContext_join_now ac \<Longrightarrow> ApplicationContext_join_now ac'"
    using UIContext_Render_Inr(4) [OF r] .
qed

text \<open>
  The loop returns normally only from a state whose base-class flag is already set, and
  then it returns that very state: no turn of the loop changes the flag it tests.
\<close>

lemma UIEngine_returns_Inr:
  "UIEngine env ac w = Some r \<Longrightarrow> (\<forall>s. r = Inr s \<longrightarrow> join_now ac \<and> s = (ac, w))"
proof (induct env ac w r rule: UIEngine.raw_induct [rotated 1, consumes 1, case_names step])
  case (step UIEngine' env ac w r)
  show ?case
  proof (cases "join_now ac")
    case True
    with step(2) show ?thesis by auto
  next
    case False
    show ?thesis
    proof (cases "UIEngine_body env ac w")
      case (Inl e)
      with step(2) False show ?thesis by auto
    next
      case (Inr s1)
      obtain ac1 w1 where s1: "s1 = (ac1, w1)" by (cases s1)
      from step(2) False Inr s1 have u: "UIEngine' env ac1 w1 = Some r" by simp
      have b: "UIEngine_body env ac w = Inr (ac1, w1)" using Inr s1 by simp
      from step(1) [OF u] have "\<forall>s. r = Inr s \<longrightarrow> join_now ac1" by blast
      with UIEngine_body_Inr(1) [OF b] False show ?thesis by simp
    qed
  qed
qed

lemma ui_valid_body:
  assumes "ui_valid ac w"
  shows "\<exists>ac' w'. UIEngine_body env ac w = Inr (ac', w') \<and> ui_valid ac' w'"
proof -
  from assms obtain u a d where u: "ui ac = Some u" and m: "UIContext_m u = Some a"
    and d: "deref w (Some a) = Some (UIContext_Detail_object d)"
    by (auto simp: ui_valid_def deref_def split: option.splits object.splits if_splits)
  define w1 where "w1 = call (glfwWaitEventsTimeout float_1_div_24) w"
  have d1: "deref w1 (Some a) = Some (UIContext_Detail_object d)" using d by (simp add: w1_def)
  have r: "UIContext_Render env u ac w1 = Inr (Detail_Render env a d ac w1)"
    using m d1 by (simp add: UIContext_Render_def)
  obtain ac' w' where p: "Detail_Render env a d ac w1 = (ac', w')" by (cases "Detail_Render env a d ac w1")
  have b: "UIEngine_body env ac w = Inr (ac', w')"
    using u r p by (simp add: UIEngine_body_def Update_def w1_def Let_def)
  have "ui ac' = ui ac" and "heap w' = heap w"
    using UIEngine_body_Inr(2,3) [OF b] by simp_all
  then have "ui_valid ac' w'" using assms deref_heap_cong [of w' w "UIContext_m (the (ui ac))"]
    by (auto simp: ui_valid_def split: option.splits)
  with b show ?thesis by blast
qed

lemma UIEngine_no_failure:
  "UIEngine env ac w = Some r \<Longrightarrow> (ui_valid ac w \<longrightarrow> (\<forall>e. r \<noteq> Inl e))"
proof (induct env ac w r rule: UIEngine.raw_induct [rotated 1, consumes 1, case_names step])
  case (step UIEngine' env ac w r)
  show ?case
  proof (cases "join_now ac")
    case True
    with step(2) show ?thesis by auto
  next
    case False
    show ?thesis
    proof
      assume v0: "ui_valid ac w"
      from ui_valid_body [OF v0] obtain ac1 w1 where b: "UIEngine_body env ac w = Inr (ac1, w1)"
        and v: "ui_valid ac1 w1" by blast
      with step(2) False have "UIEngine' env ac1 w1 = Some r" by simp
      from step(1) [OF this] v show "\<forall>e. r \<noteq> Inl e" by blast
    qed
  qed
qed

lemma UIEngine_diverges:
  assumes "\<not> join_now ac" and "ui_valid ac w"
  shows "UIEngine env ac w = None"
proof (cases "UIEngine env ac w")
  case None
  then show ?thesis .
next
  case (Some r)
  show ?thesis
  proof (cases r)
    case (Inl e)
    with UIEngine_no_failure [OF Some] assms(2) show ?thesis by blast
  next
    case (Inr s)
    with UIEngine_returns_Inr [OF Some] assms(1) show ?thesis by blast
  qed
qed


lemmas factory_defs =
  main_contexts_def CreateRootGraphicsContext_def GLFWGraphicsContext_ctor_def
  GraphicsContext_ctor_def GraphicsContext_dtor_def CreateUIContext_def
  GusteauChapter1UI_ctor_def UIContext_ctor_def Detail_ctor_def
  CreateApplicationContext_def ApplicationContext_ctor_def StateContext_ctor_def
  RenderContext_ctor_def setGlfwFlags_def new_def delete_def store_def deref_def call_def now_def


subsection \<open>The trace only grows\<close>



subsection \<open>The two flags under every operation\<close>

lemma Run_never_pressed:
  "\<forall>t. \<not> ImGui_Button_result env t \<Longrightarrow> fst (GusteauChapter1UI_Run env ac w) = ac"
  by (simp add: GusteauChapter1UI_Run_def Let_def)

lemma Detail_Render_never_pressed:
  "\<forall>t. \<not> ImGui_Button_result env t \<Longrightarrow> fst (Detail_Render env a d ac w) = ac"
  by (simp add: Detail_Render_def Let_def split_beta Run_never_pressed
      split: option.split closure.split)

lemma UIContext_Render_never_pressed:
  assumes "UIContext_Render env u ac w = Inr (ac', w')" and "\<forall>t. \<not> ImGui_Button_result env t"
  shows "ac' = ac"
proof -
  from assms(1) obtain a d where "Detail_Render env a d ac w = (ac', w')"
    by (auto simp: UIContext_Render_def split: option.splits object.splits)
  then have "ac' = fst (Detail_Render env a d ac w)" by simp
  with Detail_Render_never_pressed [OF assms(2)] show ?thesis by simp
qed

lemma UIEngine_body_never_pressed:
  assumes "UIEngine_body env ac w = Inr (ac', w')" and "\<forall>t. \<not> ImGui_Button_result env t"
  shows "ac' = ac"
proof -
  from assms(1) obtain u where
    "UIContext_Render env u ac (call (glfwWaitEventsTimeout float_1_div_24) w) = Inr (ac', w')"
    by (auto simp: UIEngine_body_def Update_def Let_def split: option.splits sum.splits)
  from UIContext_Render_never_pressed [OF this assms(2)] show ?thesis .
qed

lemma flags_kept_refl: "flags_kept env ac ac"
  by (simp add: flags_kept_def)

lemma flags_kept_trans: "flags_kept env a b \<Longrightarrow> flags_kept env b c \<Longrightarrow> flags_kept env a c"
  by (auto simp: flags_kept_def)

lemma perform_flags_kept:
  assumes "perform env op ac w = Some (Inr (ac', w'))"
  shows "flags_kept env ac ac'"
proof (cases op)
  case Op_StateEngine
  with assms show ?thesis by (simp add: perform_def StateEngine_def flags_kept_def)
next
  case Op_RenderEngine
  with assms show ?thesis by (simp add: perform_def RenderEngine_def flags_kept_def)
next
  case Op_UIEngine
  with assms have "UIEngine env ac w = Some (Inr (ac', w'))" by (simp add: perform_def)
  from UIEngine_returns_Inr [OF this] show ?thesis by (simp add: flags_kept_def)
next
  case Op_UIEngine_body
  with assms have b: "UIEngine_body env ac w = Inr (ac', w')" by (simp add: perform_def)
  show ?thesis
    using UIEngine_body_Inr(1,4) [OF b] UIEngine_body_never_pressed [OF b]
    by (auto simp: flags_kept_def)
next
  case Op_glfwWaitEventsTimeout
  with assms show ?thesis by (simp add: perform_def flags_kept_def)
next
  case Op_UIContext_Render
  with assms obtain u where r: "UIContext_Render env u ac w = Inr (ac', w')"
    by (auto simp: perform_def split: option.splits)
  show ?thesis
    using UIContext_Render_Inr(1,4) [OF r] UIContext_Render_never_pressed [OF r]
    by (auto simp: flags_kept_def)
next
  case Op_GusteauChapter1UI_Run
  with assms have "ac' = fst (GusteauChapter1UI_Run env ac w)" by (simp add: perform_def)
  then show ?thesis
    using Run_derived_flag [of ac env w] Run_never_pressed [of env ac w]
    by (auto simp: flags_kept_def)
next
  case Op_Update
  with assms show ?thesis by (simp add: perform_def Update_def flags_kept_def)
qed

lemma schedule_flags_kept:
  "schedule env ops ac w = Some (Inr (ac', w')) \<Longrightarrow> flags_kept env ac ac'"
proof (induction ops arbitrary: ac w)
  case Nil
  then show ?case by (simp add: flags_kept_refl)
next
  case (Cons op ops)
  from Cons.prems obtain ac1 w1 where p: "perform env op ac w = Some (Inr (ac1, w1))"
    and s: "schedule env ops ac1 w1 = Some (Inr (ac', w'))"
    by (auto split: option.splits sum.splits)
  from flags_kept_trans [OF perform_flags_kept [OF p] Cons.IH [OF s]] show ?case .
qed

subsection \<open>The timeout\<close>


subsection \<open>The claims\<close>

lemmas frame_defs =
  UIEngine_body_def UIContext_Render_def Detail_Render_def ActivateContext_def
  GusteauChapter1UI_Run_def Update_def

lemmas example_defs =
  window_context_def window_world_def null_window_world_def window_detail_def
  fresh_context_def joined_context_def quit_pressed_def never_pressed_def glfw_fails_def
  no_window_def empty_world_def


text \<open>
  C1. The claim: pressing Quit makes \<^verbatim>\<open>Run\<close> set the flag of the application context, after
  which the flag read by \<^verbatim>\<open>UIEngine\<close> is true and \<^verbatim>\<open>UIEngine\<close> returns. The code does not do
  that. In the state that the first three statements of \<^verbatim>\<open>main\<close> build, with the Quit button
  pressed in every frame, the first turn of the loop sets the member declared in
  \<^verbatim>\<open>ApplicationContext\<close> and leaves the member of the base class false, and \<^verbatim>\<open>UIEngine\<close>
  never returns.
\<close>

theorem quit_does_not_stop_UIEngine:
  "case main_contexts quit_pressed empty_world of
     Inl exc \<Rightarrow> False
   | Inr (context, w) \<Rightarrow>
       \<not> join_now context \<and>
       UIEngine quit_pressed context w = None \<and>
       (case UIEngine_body quit_pressed context w of
          Inl exc \<Rightarrow> False
        | Inr (context', w') \<Rightarrow> ApplicationContext_join_now context' \<and> \<not> join_now context')"
proof -
  have "\<exists>context w. main_contexts quit_pressed empty_world = Inr (context, w) \<and>
          ui_valid context w \<and> \<not> join_now context \<and>
          (case UIEngine_body quit_pressed context w of
             Inl exc \<Rightarrow> False
           | Inr (context', w') \<Rightarrow> ApplicationContext_join_now context' \<and> \<not> join_now context')"
    by (simp add: factory_defs frame_defs ui_valid_def quit_pressed_def empty_world_def Let_def)
  then obtain ac w where m: "main_contexts quit_pressed empty_world = Inr (ac, w)"
    and v: "ui_valid ac w" and j: "\<not> join_now ac"
    and b: "case UIEngine_body quit_pressed ac w of
              Inl exc \<Rightarrow> False
            | Inr (context', w') \<Rightarrow> ApplicationContext_join_now context' \<and> \<not> join_now context'"
    by blast
  from UIEngine_diverges [OF j v] have "UIEngine quit_pressed ac w = None" .
  with m j b show ?thesis by simp
qed

text \<open>
  C2. The two \<^verbatim>\<open>join_now\<close> members are distinct: writing true to the one declared in
  \<^verbatim>\<open>ApplicationContext\<close> leaves the one of \<^verbatim>\<open>ApplicationContextBase\<close> as it was, and the other
  way round. \<^verbatim>\<open>Run\<close> never changes the member of the base class, and sets the derived one
  when the button is pressed; the constructor leaves both false.
\<close>

theorem join_now_members_distinct:
  "join_now (context\<lparr>ApplicationContext_join_now := True\<rparr>) = join_now context \<and>
   ApplicationContext_join_now (context\<lparr>join_now := True\<rparr>) = ApplicationContext_join_now context \<and>
   join_now (fst (GusteauChapter1UI_Run env context w)) = join_now context \<and>
   (ImGui_Button_result env (Suc (now w)) \<longrightarrow>
      ApplicationContext_join_now (fst (GusteauChapter1UI_Run env context w))) \<and>
   \<not> join_now (fst (ApplicationContext_ctor gc u w)) \<and>
   \<not> ApplicationContext_join_now (fst (ApplicationContext_ctor gc u w))"
  by (simp add: GusteauChapter1UI_Run_def ApplicationContext_ctor_def Let_def split_beta)

theorem join_now_members_distinct_witness:
  "ImGui_Button_result quit_pressed (Suc (now empty_world)) \<and>
   ApplicationContext_join_now (fst (GusteauChapter1UI_Run quit_pressed fresh_context empty_world)) \<and>
   \<not> join_now (fst (GusteauChapter1UI_Run quit_pressed fresh_context empty_world))"
  using join_now_members_distinct [of fresh_context quit_pressed empty_world 0 None]
  by (simp add: quit_pressed_def fresh_context_def CreateApplicationContext_def)

text \<open>
  C3. The claim: each of the three engines polls the flag and returns exactly when it sees
  it true. \<^verbatim>\<open>StateEngine\<close> returns on a context whose flag is false. As amended:
  \<^verbatim>\<open>UIEngine\<close> returns normally only in a state where the flag of the base class is true, and
  returns at once when it finds it true; \<^verbatim>\<open>StateEngine\<close> and \<^verbatim>\<open>RenderEngine\<close> return at once
  whatever the flag is.
\<close>

theorem engines_return:
  "(UIEngine env context w = Some (Inr (context', w')) \<longrightarrow> join_now context') \<and>
   (join_now context \<longrightarrow> UIEngine env context w = Some (Inr (context, w))) \<and>
   StateEngine context w = (context, w) \<and>
   RenderEngine context w = (context, w)"
proof -
  have "join_now context'" if "UIEngine env context w = Some (Inr (context', w'))"
    using UIEngine_returns_Inr [OF that] by simp
  moreover have "UIEngine env context w = Some (Inr (context, w))" if "join_now context"
    using that by (simp add: UIEngine.simps)
  ultimately show ?thesis by (simp add: StateEngine_def RenderEngine_def)
qed

theorem engines_return_witness:
  "join_now joined_context \<and>
   UIEngine quit_pressed joined_context empty_world = Some (Inr (joined_context, empty_world))"
  using engines_return [of quit_pressed joined_context empty_world joined_context empty_world]
  by (simp add: joined_context_def)

text \<open>
  Against C3 as it is stated: on a freshly constructed context \<^verbatim>\<open>StateEngine\<close> returns, and
  the flag is false.
\<close>

theorem StateEngine_returns_unjoined_counterexample:
  "StateEngine fresh_context empty_world = (fresh_context, empty_world) \<and> \<not> join_now fresh_context"
  by (simp add: StateEngine_def fresh_context_def CreateApplicationContext_def
      ApplicationContext_ctor_def Let_def split_beta)

text \<open>
  C4. \<^verbatim>\<open>StateEngine\<close>, \<^verbatim>\<open>RenderEngine\<close> and \<^verbatim>\<open>ApplicationContext::Update\<close> return the
  context and the world they were given: no field changes, nothing is allocated or
  freed, no library is called.
\<close>

theorem other_engines_inert:
  "StateEngine context w = (context, w) \<and>
   RenderEngine context w = (context, w) \<and>
   Update context w = (context, w)"
  by (simp add: StateEngine_def RenderEngine_def Update_def)




text \<open>
  C6. Along every schedule of the program's operations that returns, the flag of the
  base class keeps its value (nothing writes it), the flag that the quit handler writes
  stays true once it is true (nothing writes false), and that flag does not change at all
  unless \<^verbatim>\<open>ImGui::Button("Quit")\<close> can answer true (the handler is its only writer).
\<close>

theorem join_now_monotone:
  assumes "schedule env ops context w = Some (Inr (context', w'))"
  shows "join_now context' = join_now context \<and>
         (ApplicationContext_join_now context \<longrightarrow> ApplicationContext_join_now context') \<and>
         ((\<forall>t. \<not> ImGui_Button_result env t) \<longrightarrow>
            ApplicationContext_join_now context' = ApplicationContext_join_now context)"
  using schedule_flags_kept [OF assms] by (simp add: flags_kept_def)


theorem join_now_monotone_witness:
  "schedule quit_pressed [Op_StateEngine, Op_GusteauChapter1UI_Run, Op_RenderEngine, Op_Update]
     (fresh_context\<lparr>ApplicationContext_join_now := True\<rparr>) empty_world =
     Some (Inr (fresh_context\<lparr>ApplicationContext_join_now := True\<rparr>,
                empty_world\<lparr>trace := [ImGui_Text ''Hello world'', ImGui_Button ''Quit'']\<rparr>)) \<and>
   ApplicationContext_join_now (fresh_context\<lparr>ApplicationContext_join_now := True\<rparr>) \<and>
   (\<forall>t. \<not> ImGui_Button_result never_pressed t) \<and>
   schedule never_pressed [Op_GusteauChapter1UI_Run] fresh_context empty_world =
     Some (Inr (fresh_context,
                empty_world\<lparr>trace := [ImGui_Text ''Hello world'', ImGui_Button ''Quit'']\<rparr>)) \<and>
   \<not> ApplicationContext_join_now fresh_context \<and> \<not> join_now fresh_context"
  using join_now_monotone
      [of quit_pressed "[Op_StateEngine, Op_GusteauChapter1UI_Run, Op_RenderEngine, Op_Update]"
        "fresh_context\<lparr>ApplicationContext_join_now := True\<rparr>" empty_world
        "fresh_context\<lparr>ApplicationContext_join_now := True\<rparr>"
        "empty_world\<lparr>trace := [ImGui_Text ''Hello world'', ImGui_Button ''Quit'']\<rparr>"]
    join_now_monotone
      [of never_pressed "[Op_GusteauChapter1UI_Run]" fresh_context empty_world fresh_context
        "empty_world\<lparr>trace := [ImGui_Text ''Hello world'', ImGui_Button ''Quit'']\<rparr>"]
  by (simp add: example_defs factory_defs frame_defs perform_def StateEngine_def RenderEngine_def
      Let_def)

text \<open>
  C7, as amended. The claim has the \<^verbatim>\<open>Detail\<close> created lazily, \<^verbatim>\<open>m_\<close> being null right after
  construction. Each constructor allocates the \<^verbatim>\<open>Detail\<close> itself: right after construction
  \<^verbatim>\<open>m_\<close> is the address of a cell that was not allocated before and now holds the \<^verbatim>\<open>Detail\<close>
  of that class (for \<^verbatim>\<open>UIContext\<close>, whenever its constructor returns).
\<close>

theorem Detail_created_by_constructor:
  "StateContext_m (fst (StateContext_ctor w)) = Some (length (heap w)) \<and>
   deref (snd (StateContext_ctor w)) (Some (length (heap w))) = Some StateContext_Detail \<and>
   RenderContext_m (fst (RenderContext_ctor w)) = Some (length (heap w)) \<and>
   deref (snd (RenderContext_ctor w)) (Some (length (heap w))) = Some RenderContext_Detail \<and>
   GraphicsContext_m (fst (GraphicsContext_ctor w)) = Some (length (heap w)) \<and>
   deref (snd (GraphicsContext_ctor w)) (Some (length (heap w))) = Some GraphicsContext_Detail \<and>
   (case UIContext_ctor env gc window_name width height w of
      (Inl exc, w') \<Rightarrow> True
    | (Inr u, w') \<Rightarrow>
        UIContext_m u = Some (length (heap w)) \<and>
        (\<exists>d. deref w' (Some (length (heap w))) = Some (UIContext_Detail_object d))) \<and>
   deref w (Some (length (heap w))) = None"
  by (simp add: StateContext_ctor_def RenderContext_ctor_def GraphicsContext_ctor_def
      UIContext_ctor_def Detail_ctor_def setGlfwFlags_def new_def store_def delete_def deref_def
      call_def Let_def split: option.split object.split)


theorem Detail_created_by_constructor_witness:
  "case UIContext_ctor quit_pressed 0 ''gusteau'' 1024 1024
          (snd (CreateRootGraphicsContext quit_pressed empty_world)) of
     (Inl exc, w') \<Rightarrow> False
   | (Inr u, w') \<Rightarrow>
       UIContext_m u = Some 2 \<and>
       deref w' (Some 2) =
         Some (UIContext_Detail_object
           \<lparr>Detail_window = Some 18, Detail_context = 21,
            Detail_window_name = ''gusteau'', Detail_run = Some Lambda_this_Run\<rparr>)"
  using Detail_created_by_constructor
      [of "snd (CreateRootGraphicsContext quit_pressed empty_world)" quit_pressed 0
        "''gusteau''" 1024 1024]
  by (simp add: example_defs factory_defs Let_def eval_nat_numeral)

text \<open>
  Against C7 as it is stated: right after \<^verbatim>\<open>StateContext::StateContext()\<close> the pointer
  \<^verbatim>\<open>m_\<close> is not null.
\<close>

theorem StateContext_m_null_counterexample:
  "StateContext_m (fst (StateContext_ctor empty_world)) \<noteq> None"
  by (simp add: StateContext_ctor_def new_def empty_world_def)

text \<open>
  C8. When the flag of the base class is true, or the window handle of the
  \<^verbatim>\<open>UIContext::Detail\<close> is null, \<^verbatim>\<open>UIContext::Render\<close> returns the context and the world
  unchanged: no field is written and no library is called. The \<^verbatim>\<open>m_\<close> of the \<^verbatim>\<open>UIContext\<close>
  points to its live \<^verbatim>\<open>Detail\<close>, as it does from construction to destruction.
\<close>

theorem Render_returns_immediately:
  assumes "join_now context \<or> Detail_window d = None"
    and "UIContext_m this = Some a"
    and "deref w (Some a) = Some (UIContext_Detail_object d)"
  shows "UIContext_Render env this context w = Inr (context, w)"
  using assms by (auto simp: UIContext_Render_def Detail_Render_def)

theorem Render_returns_immediately_witness:
  "join_now joined_context \<and>
   Detail_window (window_detail\<lparr>Detail_window := None\<rparr>) = None \<and>
   UIContext_Render quit_pressed \<lparr>UIContext_m = Some 0\<rparr> joined_context window_world =
     Inr (joined_context, window_world) \<and>
   UIContext_Render quit_pressed \<lparr>UIContext_m = Some 0\<rparr> window_context null_window_world =
     Inr (window_context, null_window_world)"
  using Render_returns_immediately
      [of joined_context window_detail "\<lparr>UIContext_m = Some 0\<rparr>" 0 window_world quit_pressed]
    Render_returns_immediately
      [of window_context "window_detail\<lparr>Detail_window := None\<rparr>" "\<lparr>UIContext_m = Some 0\<rparr>" 0
        null_window_world quit_pressed]
  by (simp add: joined_context_def window_world_def null_window_world_def deref_def)

text \<open>
  C9. The claim: \<^verbatim>\<open>CreateRootGraphicsContext\<close> throws the \<^verbatim>\<open>runtime_error\<close> exactly when
  \<^verbatim>\<open>glfwInit\<close> fails, and otherwise returns a non-null context that owns the root window.
  The code tests \<^verbatim>\<open>glfwInit\<close> and not \<^verbatim>\<open>glfwCreateWindow\<close>. When \<^verbatim>\<open>glfwInit\<close> fails it
  throws; when every call succeeds it returns the context with its window; when
  \<^verbatim>\<open>glfwInit\<close> succeeds and \<^verbatim>\<open>glfwCreateWindow\<close> answers null it goes on with no window, makes
  the calls listed, and runs into undefined behaviour when it prints the null answer of
  \<^verbatim>\<open>glGetString\<close>.
\<close>

theorem root_window_not_checked:
  "fst (CreateRootGraphicsContext glfw_fails empty_world) =
     Inl (runtime_error ''Could not initialize glfw'') \<and>
   fst (CreateRootGraphicsContext quit_pressed empty_world) = Inr (Some 0) \<and>
   deref (snd (CreateRootGraphicsContext quit_pressed empty_world)) (Some 0) =
     Some (GLFWGraphicsContext_object
       \<lparr>GraphicsContext_m = Some 1, GLFWGraphicsContext_window = Some 5\<rparr>) \<and>
   glfwInit_result no_window 1 \<and>
   glfwCreateWindow_result no_window 5 = None \<and>
   fst (CreateRootGraphicsContext no_window empty_world) = Inl undefined_behaviour \<and>
   trace (snd (CreateRootGraphicsContext no_window empty_world)) =
     [glfwSetErrorCallback, glfwInit,
      glfwWindowHint GLFW_CONTEXT_VERSION_MAJOR (Literal 4),
      glfwWindowHint GLFW_CONTEXT_VERSION_MINOR (Literal 3),
      glfwWindowHint GLFW_VISIBLE GLFW_FALSE,
      glfwCreateWindow 16 16 ''Root graphics context'' None None,
      glfwMakeContextCurrent None, glfwSwapInterval 1, set_glewExperimental GL_TRUE, glewInit,
      std_cerr ''glew didn't init properly'', std_cerr ''glew didn't init properly'',
      glGetString GL_RENDERER, glGetString GL_VERSION]"
  by (simp add: example_defs factory_defs Let_def)

end
